theory Spec2Isabelle
  imports Complex_Main
begin

section \<open>Numbers, errors and the geometric values\<close>

text \<open>
  The library computes with JavaScript numbers. They are modelled as reals: every
  comparison of the algorithm goes through the tolerance predicates below, and rounding
  is left out. The two infinities occur only as bounds of a box, so a box bound has a
  type of its own.
\<close>

datatype bound = NegInf | Fin real | PosInf

text \<open>JavaScript's \<^verbatim>\<open><\<close> on two bounds.\<close>

fun bound_lt :: "bound \<Rightarrow> bound \<Rightarrow> bool" where
  "bound_lt (Fin a) (Fin b) = (a < b)"
| "bound_lt NegInf NegInf = False"
| "bound_lt NegInf b = True"
| "bound_lt (Fin a) PosInf = True"
| "bound_lt a b = False"

datatype error = ILLEGAL_PARAMETERS | ZERO_DIVISION | TypeError

datatype relation = INSIDE | OUTSIDE | BOUNDARY

text \<open>
  Modelled from the spec: the classes Point, Vector, Box, Line and Segment are not among
  the sources. Section 3 gives their data: a point and a vector are pairs \<^verbatim>\<open>(x, y)\<close>
  (the fields of the two are named apart here), a box is an axis-aligned rectangle
  whose bounds may be infinite, a line is a point and a normal, a segment runs from
  its start \<open>ps\<close> to its end \<open>pe\<close>.
\<close>

record point =
  px :: real
  py :: real

record vector =
  vx :: real
  vy :: real

record box =
  xmin :: bound
  ymin :: bound
  xmax :: bound
  ymax :: bound

record line =
  line_pt :: point
  line_norm :: vector

record segment =
  ps :: point
  pe :: point

text \<open>
  Modelled from the spec: the Arc class is not among the sources. An arc is taken as
  what section 6 says a shape exposes: \<^verbatim>\<open>start\<close>, \<^verbatim>\<open>end\<close>, \<^verbatim>\<open>box\<close>,
  \<^verbatim>\<open>tangentInStart()\<close>, \<^verbatim>\<open>tangentInEnd()\<close> and \<^verbatim>\<open>length\<close>.
\<close>

record arc =
  arc_start :: point
  arc_end :: point
  arc_box :: box
  arc_tangentInStart :: vector
  arc_tangentInEnd :: vector
  arc_length :: real

text \<open>
  The two shapes a ray intersects are \<open>Segment\<close> and \<open>Arc\<close>. JavaScript passes any value
  where a shape is expected; \<open>OtherShape\<close> is a value that is an instance of neither
  class, tagged with the name of its own.
\<close>

datatype curve = Segment segment | Arc arc

datatype shape = Curve curve | OtherShape string

text \<open>
  Modelled from the spec: the classes Edge and Polygon are not among the sources. A
  polygon edge wraps a shape and links to its neighbours \<^verbatim>\<open>prev\<close> and \<^verbatim>\<open>next\<close>
  (section 3). As section 9 proposes, the edges of a polygon live in one list, and
  \<open>e_prev\<close> and \<open>e_next\<close> are positions in it: two edges are the same object exactly
  when their positions are equal.
\<close>

record edge =
  e_shape :: shape
  e_prev :: nat
  e_next :: nat

text \<open>
  A polygon exposes its box, its edges, and the range query \<^verbatim>\<open>edges.search(box)\<close>,
  which answers with positions of edges.
\<close>

record polygon =
  poly_box :: box
  poly_edges :: "edge list"
  poly_search :: "box \<Rightarrow> nat list"

section \<open>The collaborators of the ray\<close>

subsection \<open>Tolerance predicates\<close>

text \<open>
  Modelled from the spec: \<^verbatim>\<open>utils\<close> is not among the sources. Section 6 names the
  predicates \<^verbatim>\<open>EQ\<close>, \<^verbatim>\<open>EQ_0\<close>, \<^verbatim>\<open>GE\<close>, \<^verbatim>\<open>GT\<close>, \<^verbatim>\<open>LT\<close> as comparisons with one
  fixed epsilon. The epsilon is the parameter \<open>tol\<close> of every definition that needs it.
\<close>

definition EQ_0 :: "real \<Rightarrow> real \<Rightarrow> bool" where
  "EQ_0 tol a = (a < tol \<and> - tol < a)"

definition EQ :: "real \<Rightarrow> real \<Rightarrow> real \<Rightarrow> bool" where
  "EQ tol a b = (a - b < tol \<and> - tol < a - b)"

definition GT :: "real \<Rightarrow> real \<Rightarrow> real \<Rightarrow> bool" where
  "GT tol a b = (tol < a - b)"

definition GE :: "real \<Rightarrow> real \<Rightarrow> real \<Rightarrow> bool" where
  "GE tol a b = (- tol < a - b)"

definition LT :: "real \<Rightarrow> real \<Rightarrow> real \<Rightarrow> bool" where
  "LT tol a b = (a - b < - tol)"

text \<open>
  \<^verbatim>\<open>EQ\<close> of a coordinate and a box bound: the difference of a number and an infinity is
  infinite, and fails both comparisons with the epsilon.
\<close>

fun EQ_bound :: "real \<Rightarrow> real \<Rightarrow> bound \<Rightarrow> bool" where
  "EQ_bound tol a (Fin b) = EQ tol a b"
| "EQ_bound tol a b = False"

subsection \<open>Vector, Point, Box, Line\<close>

text \<open>
  Modelled from the spec: the classes Vector, Point, Box and Line are not among the
  sources. Section 3 and section 6 give their contracts: dot and cross product, the
  vector between two points, translation of a point, tolerance equality of points, the
  side test \<^verbatim>\<open>leftTo\<close>, the membership test \<^verbatim>\<open>on\<close>, the degenerate box of a point and
  the overlap test of two boxes.
\<close>

definition Vector :: "real \<Rightarrow> real \<Rightarrow> vector" where
  "Vector a b = \<lparr>vx = a, vy = b\<rparr>"

definition Vector_between :: "point \<Rightarrow> point \<Rightarrow> vector" where
  "Vector_between p q = \<lparr>vx = px q - px p, vy = py q - py p\<rparr>"

definition dot :: "vector \<Rightarrow> vector \<Rightarrow> real" where
  "dot u v = vx u * vx v + vy u * vy v"

definition cross :: "vector \<Rightarrow> vector \<Rightarrow> real" where
  "cross u v = vx u * vy v - vy u * vx v"

definition vector_length :: "vector \<Rightarrow> real" where
  "vector_length v = sqrt (dot v v)"

text \<open>
  Modelled from the spec: a tangent is a unit direction (glossary). A vector whose
  length is zero under the tolerance has none: normalising it is the error
  \<open>ZERO_DIVISION\<close>.
\<close>

definition normalize :: "real \<Rightarrow> vector \<Rightarrow> error + vector" where
  "normalize tol v =
     (if \<not> EQ_0 tol (vector_length v)
      then Inr \<lparr>vx = vx v / vector_length v, vy = vy v / vector_length v\<rparr>
      else Inl ZERO_DIVISION)"

text \<open>JavaScript's \<^verbatim>\<open>Math.atan2(y, x)\<close>.\<close>

definition atan2 :: "real \<Rightarrow> real \<Rightarrow> real" where
  "atan2 b a =
     (if 0 < a then arctan (b / a)
      else if a < 0 \<and> 0 \<le> b then arctan (b / a) + pi
      else if a < 0 then arctan (b / a) - pi
      else if 0 < b then pi / 2
      else if b < 0 then - (pi / 2)
      else 0)"

text \<open>
  Modelled from the spec: the slope accessor of a vector is its angle with the x axis,
  in \<open>[0, 2\<pi>)\<close> (section 4.1).
\<close>

definition vector_slope :: "vector \<Rightarrow> real" where
  "vector_slope v =
     (let angle = atan2 (vy v) (vx v) in if angle < 0 then 2 * pi + angle else angle)"

definition Point :: "real \<Rightarrow> real \<Rightarrow> point" where
  "Point a b = \<lparr>px = a, py = b\<rparr>"

definition equalTo :: "real \<Rightarrow> point \<Rightarrow> point \<Rightarrow> bool" where
  "equalTo tol p q = (EQ tol (px p) (px q) \<and> EQ tol (py p) (py q))"

definition translate :: "point \<Rightarrow> vector \<Rightarrow> point" where
  "translate p v = \<lparr>px = px p + vx v, py = py p + vy v\<rparr>"

definition point_box :: "point \<Rightarrow> box" where
  "point_box p = \<lparr>xmin = Fin (px p), ymin = Fin (py p), xmax = Fin (px p), ymax = Fin (py p)\<rparr>"

text \<open>
  \<^verbatim>\<open>new Box(xmin, ymin, xmax, ymax)\<close>, and the fast-reject test of two boxes with
  JavaScript's exact \<^verbatim>\<open><\<close>.
\<close>

definition Box :: "bound \<Rightarrow> bound \<Rightarrow> bound \<Rightarrow> bound \<Rightarrow> box" where
  "Box a b c d = \<lparr>xmin = a, ymin = b, xmax = c, ymax = d\<rparr>"

definition not_intersect :: "box \<Rightarrow> box \<Rightarrow> bool" where
  "not_intersect b1 b2 =
     (bound_lt (xmax b1) (xmin b2) \<or> bound_lt (xmax b2) (xmin b1) \<or>
      bound_lt (ymax b1) (ymin b2) \<or> bound_lt (ymax b2) (ymin b1))"

text \<open>\<^verbatim>\<open>new Line(pt, norm)\<close>: the line through \<open>pt\<close> with normal \<open>norm\<close>.\<close>

definition Line :: "point \<Rightarrow> vector \<Rightarrow> line" where
  "Line p n = \<lparr>line_pt = p, line_norm = n\<rparr>"

definition line_contains :: "real \<Rightarrow> line \<Rightarrow> point \<Rightarrow> bool" where
  "line_contains tol l p =
     (equalTo tol (line_pt l) p \<or> EQ_0 tol (dot (line_norm l) (Vector_between (line_pt l) p)))"

definition on_line :: "real \<Rightarrow> point \<Rightarrow> line \<Rightarrow> bool" where
  "on_line tol p l = line_contains tol l p"

definition leftTo :: "real \<Rightarrow> point \<Rightarrow> line \<Rightarrow> bool" where
  "leftTo tol p l = GT tol (dot (Vector_between (line_pt l) p) (line_norm l)) 0"

subsection \<open>Segment and the attributes of a shape\<close>

text \<open>
  Modelled from the spec: the Segment class is not among the sources. A segment runs
  from \<open>ps\<close> to \<open>pe\<close>. Its tangent at an endpoint is the unit direction in which the
  segment leaves that endpoint: at the start towards the end, at the end back towards
  the start, so that translating a vertex by the tangent gives a point on the side the
  edge departs toward.
\<close>

definition Segment_new :: "point \<Rightarrow> point \<Rightarrow> segment" where
  "Segment_new p q = \<lparr>ps = p, pe = q\<rparr>"

definition segment_box :: "segment \<Rightarrow> box" where
  "segment_box s =
     Box (Fin (min (px (ps s)) (px (pe s)))) (Fin (min (py (ps s)) (py (pe s))))
         (Fin (max (px (ps s)) (px (pe s)))) (Fin (max (py (ps s)) (py (pe s))))"

definition segment_length :: "segment \<Rightarrow> real" where
  "segment_length s = vector_length (Vector_between (ps s) (pe s))"

fun curve_start :: "curve \<Rightarrow> point" where
  "curve_start (Segment s) = ps s"
| "curve_start (Arc a) = arc_start a"

fun curve_end :: "curve \<Rightarrow> point" where
  "curve_end (Segment s) = pe s"
| "curve_end (Arc a) = arc_end a"

fun curve_box :: "curve \<Rightarrow> box" where
  "curve_box (Segment s) = segment_box s"
| "curve_box (Arc a) = arc_box a"

fun curve_length :: "curve \<Rightarrow> real" where
  "curve_length (Segment s) = segment_length s"
| "curve_length (Arc a) = arc_length a"

fun tangentInStart :: "real \<Rightarrow> curve \<Rightarrow> error + vector" where
  "tangentInStart tol (Segment s) = normalize tol (Vector_between (ps s) (pe s))"
| "tangentInStart tol (Arc a) = Inr (arc_tangentInStart a)"

fun tangentInEnd :: "real \<Rightarrow> curve \<Rightarrow> error + vector" where
  "tangentInEnd tol (Segment s) = normalize tol (Vector_between (pe s) (ps s))"
| "tangentInEnd tol (Arc a) = Inr (arc_tangentInEnd a)"

section \<open>The ray\<close>

record ray =
  ray_pt :: point
  ray_norm :: vector

text \<open>
  The constructor takes its arguments as a rest parameter and tests them with
  \<^verbatim>\<open>instanceof\<close>. An argument is a Point, a Vector, or any other value.
\<close>

datatype arg = PointArg point | VectorArg vector | OtherArg

definition Ray_new :: "arg list \<Rightarrow> error + ray" where
  "Ray_new args =
     (let this = \<lparr>ray_pt = Point 0 0, ray_norm = Vector 0 1\<rparr> in
      if length args = 0 then Inr this
      else
        let this = (case args ! 0 of PointArg p \<Rightarrow> this\<lparr>ray_pt := p\<rparr> | _ \<Rightarrow> this) in
        if length args = 1 then Inr this
        else if length args = 2 then
          (case args ! 1 of
             VectorArg v \<Rightarrow> Inr (this\<lparr>ray_norm := v\<rparr>)
           | _ \<Rightarrow> Inl ILLEGAL_PARAMETERS)
        else Inl ILLEGAL_PARAMETERS)"

definition slope :: "ray \<Rightarrow> real" where
  "slope r = vector_slope (Vector (vy (ray_norm r)) (- vx (ray_norm r)))"

definition ray_box :: "ray \<Rightarrow> box" where
  "ray_box r =
     (let slope = slope r in
      Box (if pi / 2 < slope \<and> slope < 3 * pi / 2 then NegInf else Fin (px (ray_pt r)))
          (if 0 \<le> slope \<and> slope \<le> pi then Fin (py (ray_pt r)) else NegInf)
          (if pi / 2 \<le> slope \<and> slope \<le> 3 * pi / 2 then Fin (px (ray_pt r)) else PosInf)
          (if pi \<le> slope \<and> slope \<le> 2 * pi \<or> slope = 0 then Fin (py (ray_pt r)) else PosInf))"

definition ray_start :: "ray \<Rightarrow> point" where
  "ray_start r = ray_pt r"

definition contains :: "real \<Rightarrow> ray \<Rightarrow> point \<Rightarrow> bool" where
  "contains tol r p =
     (if equalTo tol (ray_pt r) p then True
      else
        let vec = Vector_between (ray_pt r) p in
        EQ_0 tol (dot (ray_norm r) vec) \<and> GE tol (cross vec (ray_norm r)) 0)"

text \<open>An element of the array \<^verbatim>\<open>split\<close> returns is a Segment or a Ray.\<close>

datatype part = SegmentPart segment | RayPart ray

definition ray_split :: "real \<Rightarrow> ray \<Rightarrow> point \<Rightarrow> error + part list" where
  "ray_split tol r p =
     (if \<not> contains tol r p then Inr []
      else if equalTo tol (ray_pt r) p then Inr [RayPart r]
      else
        (case Ray_new [PointArg p, VectorArg (ray_norm r)] of
           Inl e \<Rightarrow> Inl e
         | Inr r' \<Rightarrow> Inr [SegmentPart (Segment_new (ray_pt r) p), RayPart r']))"

text \<open>
  \<^verbatim>\<open>Line.intersect(shape)\<close> is not among the sources; it is the parameter \<open>isect\<close> of
  the definitions below.
\<close>

type_synonym line_intersect = "line \<Rightarrow> curve \<Rightarrow> point list"

definition intersectRay2Segment ::
    "real \<Rightarrow> line_intersect \<Rightarrow> ray \<Rightarrow> segment \<Rightarrow> point list" where
  "intersectRay2Segment tol isect r s =
     (if not_intersect (ray_box r) (segment_box s) then []
      else
        let lin = Line (ray_start r) (ray_norm r);
            ip_tmp = isect lin (Segment s);
            ip = filter (contains tol r) ip_tmp
        in if length ip_tmp = 2 \<and> length ip = 1 \<and> on_line tol (ray_start r) lin
           then ip @ [ray_start r] else ip)"

definition intersectRay2Arc ::
    "real \<Rightarrow> line_intersect \<Rightarrow> ray \<Rightarrow> arc \<Rightarrow> point list" where
  "intersectRay2Arc tol isect r a =
     (if not_intersect (ray_box r) (arc_box a) then []
      else
        let lin = Line (ray_start r) (ray_norm r);
            ip_tmp = isect lin (Arc a)
        in filter (contains tol r) ip_tmp)"

text \<open>
  \<^verbatim>\<open>intersect\<close> has no \<^verbatim>\<open>return\<close> for a shape of neither class: its value is then
  \<^verbatim>\<open>undefined\<close>, which is \<open>None\<close> here.
\<close>

definition intersect :: "real \<Rightarrow> line_intersect \<Rightarrow> ray \<Rightarrow> shape \<Rightarrow> point list option" where
  "intersect tol isect r sh =
     (case sh of
        Curve (Segment s) \<Rightarrow> Some (intersectRay2Segment tol isect r s)
      | Curve (Arc a) \<Rightarrow> Some (intersectRay2Arc tol isect r a)
      | OtherShape n \<Rightarrow> None)"

section \<open>Ray shooting\<close>

text \<open>
  An entry of the array \<^verbatim>\<open>intersections\<close>: the point and the edge that owns it.
\<close>

record intersection =
  i_pt :: point
  i_edge :: nat

text \<open>
  Following a link reads the edge at a position. A link that leads to no edge is
  \<^verbatim>\<open>undefined\<close> in JavaScript, and reading a property of it is a \<open>TypeError\<close>.
\<close>

definition edge_at :: "edge list \<Rightarrow> nat \<Rightarrow> edge option" where
  "edge_at es i = (if i < length es then Some (es ! i) else None)"

text \<open>
  \<^verbatim>\<open>EQ_0(edge.length)\<close>: the length of an edge is the length of its shape. A value of
  neither class has no length, and \<^verbatim>\<open>undefined\<close> fails every comparison.
\<close>

definition zero_length :: "real \<Rightarrow> edge \<Rightarrow> bool" where
  "zero_length tol ed =
     (case e_shape ed of Curve c \<Rightarrow> EQ_0 tol (curve_length c) | OtherShape n \<Rightarrow> False)"

text \<open>
  The two loops \<^verbatim>\<open>while (EQ_0(prev_edge.length)) prev_edge = prev_edge.prev\<close> and
  \<^verbatim>\<open>while (EQ_0(next_edge.length)) next_edge = next_edge.next\<close>. Neither has a
  bound: a walk that never leaves the loop has the value \<open>None\<close>.
\<close>

partial_function (option) skip_prev :: "real \<Rightarrow> edge list \<Rightarrow> nat \<Rightarrow> (error + nat) option" where
  "skip_prev tol es i =
     (case edge_at es i of
        None \<Rightarrow> Some (Inl TypeError)
      | Some ed \<Rightarrow> if zero_length tol ed then skip_prev tol es (e_prev ed) else Some (Inr i))"

partial_function (option) skip_next :: "real \<Rightarrow> edge list \<Rightarrow> nat \<Rightarrow> (error + nat) option" where
  "skip_next tol es i =
     (case edge_at es i of
        None \<Rightarrow> Some (Inl TypeError)
      | Some ed \<Rightarrow> if zero_length tol ed then skip_next tol es (e_next ed) else Some (Inr i))"

text \<open>
  The tangent of the edge a walk ended at. A value of neither class has no tangent
  method, and calling it is a \<open>TypeError\<close>.
\<close>

definition edge_tangentInEnd :: "real \<Rightarrow> edge list \<Rightarrow> nat \<Rightarrow> error + vector" where
  "edge_tangentInEnd tol es i =
     (case edge_at es i of
        None \<Rightarrow> Inl TypeError
      | Some ed \<Rightarrow>
          (case e_shape ed of Curve c \<Rightarrow> tangentInEnd tol c | OtherShape n \<Rightarrow> Inl TypeError))"

definition edge_tangentInStart :: "real \<Rightarrow> edge list \<Rightarrow> nat \<Rightarrow> error + vector" where
  "edge_tangentInStart tol es i =
     (case edge_at es i of
        None \<Rightarrow> Inl TypeError
      | Some ed \<Rightarrow>
          (case e_shape ed of Curve c \<Rightarrow> tangentInStart tol c | OtherShape n \<Rightarrow> Inl TypeError))"

text \<open>
  The test at the end of both vertex cases: one crossing when exactly one of the two
  translated points is to the left of the line.
\<close>

definition opposite_sides :: "bool \<Rightarrow> bool \<Rightarrow> nat" where
  "opposite_sides a b = (if (a \<and> \<not> b) \<or> (\<not> a \<and> b) then 1 else 0)"

text \<open>
  The vertex case at the start of the edge, after the duplicate test: the walk over the
  predecessors, the two tangents, the two translated points, the side test. The
  result is what is added to the counter.
\<close>

definition start_vertex :: "real \<Rightarrow> line \<Rightarrow> edge list \<Rightarrow> point \<Rightarrow> edge \<Rightarrow> curve \<Rightarrow> (error + nat) option" where
  "start_vertex tol lin es p ed c =
     (case skip_prev tol es (e_prev ed) of
        None \<Rightarrow> None
      | Some (Inl e) \<Rightarrow> Some (Inl e)
      | Some (Inr prev_edge) \<Rightarrow>
          (case edge_tangentInEnd tol es prev_edge of
             Inl e \<Rightarrow> Some (Inl e)
           | Inr prev_tangent \<Rightarrow>
               (case tangentInStart tol c of
                  Inl e \<Rightarrow> Some (Inl e)
                | Inr cur_tangent \<Rightarrow>
                    Some (Inr (opposite_sides
                      (leftTo tol (translate p prev_tangent) lin)
                      (leftTo tol (translate p cur_tangent) lin))))))"

definition end_vertex :: "real \<Rightarrow> line \<Rightarrow> edge list \<Rightarrow> point \<Rightarrow> edge \<Rightarrow> curve \<Rightarrow> (error + nat) option" where
  "end_vertex tol lin es p ed c =
     (case skip_next tol es (e_next ed) of
        None \<Rightarrow> None
      | Some (Inl e) \<Rightarrow> Some (Inl e)
      | Some (Inr next_edge) \<Rightarrow>
          (case edge_tangentInStart tol es next_edge of
             Inl e \<Rightarrow> Some (Inl e)
           | Inr next_tangent \<Rightarrow>
               (case tangentInEnd tol c of
                  Inl e \<Rightarrow> Some (Inl e)
                | Inr cur_tangent \<Rightarrow>
                    Some (Inr (opposite_sides
                      (leftTo tol (translate p next_tangent) lin)
                      (leftTo tol (translate p cur_tangent) lin))))))"

text \<open>
  \<^verbatim>\<open>i > 0 && intersection.pt.equalTo(intersections[i - 1].pt) && link === intersections[i - 1].edge\<close>,
  with the entry before the current one (none when \<^verbatim>\<open>i\<close> is 0).
\<close>

definition already_counted :: "real \<Rightarrow> intersection option \<Rightarrow> point \<Rightarrow> nat \<Rightarrow> bool" where
  "already_counted tol before p link =
     (case before of
        None \<Rightarrow> False
      | Some b \<Rightarrow> equalTo tol p (i_pt b) \<and> link = i_edge b)"

text \<open>
  The body of the counting loop for one entry: what it adds to the counter (\<open>0\<close> where
  the source says \<^verbatim>\<open>continue\<close>).
\<close>

definition count_one ::
    "real \<Rightarrow> line \<Rightarrow> edge list \<Rightarrow> intersection option \<Rightarrow> intersection \<Rightarrow> (error + nat) option" where
  "count_one tol lin es before x =
     (case edge_at es (i_edge x) of
        None \<Rightarrow> Some (Inl TypeError)
      | Some ed \<Rightarrow>
          (case e_shape ed of
             OtherShape n \<Rightarrow> Some (Inl TypeError)
           | Curve c \<Rightarrow>
               if equalTo tol (i_pt x) (curve_start c) then
                 (if already_counted tol before (i_pt x) (e_prev ed) then Some (Inr 0)
                  else start_vertex tol lin es (i_pt x) ed c)
               else if equalTo tol (i_pt x) (curve_end c) then
                 (if already_counted tol before (i_pt x) (e_next ed) then Some (Inr 0)
                  else end_vertex tol lin es (i_pt x) ed c)
               else
                 (case c of
                    Segment s \<Rightarrow> Some (Inr 1)
                  | Arc a \<Rightarrow>
                      if \<not> (EQ_bound tol (py (i_pt x)) (ymin (curve_box c)) \<or>
                             EQ_bound tol (py (i_pt x)) (ymax (curve_box c)))
                      then Some (Inr 1) else Some (Inr 0))))"

text \<open>
  The counting loop over the sorted entries, from an entry on: \<open>before\<close> is the entry
  at \<^verbatim>\<open>i - 1\<close> and \<open>counter\<close> the count so far.
\<close>

fun count_crossings ::
    "real \<Rightarrow> line \<Rightarrow> edge list \<Rightarrow> intersection option \<Rightarrow> intersection list \<Rightarrow> nat \<Rightarrow> (error + nat) option" where
  "count_crossings tol lin es before [] counter = Some (Inr counter)"
| "count_crossings tol lin es before (x # xs) counter =
     (case count_one tol lin es before x of
        None \<Rightarrow> None
      | Some (Inl e) \<Rightarrow> Some (Inl e)
      | Some (Inr d) \<Rightarrow> count_crossings tol lin es (Some x) xs (counter + d))"

text \<open>
  The inner loop of step 3 over the points of one edge: \<open>None\<close> is the early
  \<^verbatim>\<open>return BOUNDARY\<close>, otherwise the array with the new entries pushed.
\<close>

fun push_points :: "real \<Rightarrow> point \<Rightarrow> nat \<Rightarrow> point list \<Rightarrow> intersection list \<Rightarrow> intersection list option" where
  "push_points tol point e [] acc = Some acc"
| "push_points tol point e (ip # ips) acc =
     (if equalTo tol ip point then None
      else push_points tol point e ips (acc @ [\<lparr>i_pt = ip, i_edge = e\<rparr>]))"

text \<open>
  The outer loop of step 3 over the edges the search answered with. Iterating over
  \<^verbatim>\<open>undefined\<close> with \<^verbatim>\<open>for ... of\<close> is a \<open>TypeError\<close>.
\<close>

fun collect ::
    "real \<Rightarrow> line_intersect \<Rightarrow> edge list \<Rightarrow> ray \<Rightarrow> point \<Rightarrow> nat list \<Rightarrow> intersection list
      \<Rightarrow> error + intersection list option" where
  "collect tol isect es r point [] acc = Inr (Some acc)"
| "collect tol isect es r point (e # rest) acc =
     (case edge_at es e of
        None \<Rightarrow> Inl TypeError
      | Some ed \<Rightarrow>
          (case intersect tol isect r (e_shape ed) of
             None \<Rightarrow> Inl TypeError
           | Some ips \<Rightarrow>
               (case push_points tol point e ips acc of
                  None \<Rightarrow> Inr None
                | Some acc' \<Rightarrow> collect tol isect es r point rest acc')))"

text \<open>The comparator of step 4.\<close>

definition compare_x :: "real \<Rightarrow> intersection \<Rightarrow> intersection \<Rightarrow> int" where
  "compare_x tol i1 i2 =
     (if LT tol (px (i_pt i1)) (px (i_pt i2)) then - 1
      else if GT tol (px (i_pt i1)) (px (i_pt i2)) then 1
      else 0)"

text \<open>
  \<^verbatim>\<open>Array.prototype.sort\<close> with a comparator, as a stable insertion sort: an entry goes
  before the first one it compares below, and entries that compare equal keep their
  order.
\<close>

fun insert_by :: "('a \<Rightarrow> 'a \<Rightarrow> int) \<Rightarrow> 'a \<Rightarrow> 'a list \<Rightarrow> 'a list" where
  "insert_by cmp a [] = [a]"
| "insert_by cmp a (b # bs) = (if cmp a b < 0 then a # b # bs else b # insert_by cmp a bs)"

definition sort_by :: "('a \<Rightarrow> 'a \<Rightarrow> int) \<Rightarrow> 'a list \<Rightarrow> 'a list" where
  "sort_by cmp xs = foldl (\<lambda>sorted a. insert_by cmp a sorted) [] xs"

definition ray_shoot ::
    "real \<Rightarrow> line_intersect \<Rightarrow> polygon \<Rightarrow> point \<Rightarrow> (error + relation) option" where
  "ray_shoot tol isect polygon point =
     (if not_intersect (poly_box polygon) (point_box point) then Some (Inr OUTSIDE)
      else
        (case Ray_new [PointArg point] of
           Inl e \<Rightarrow> Some (Inl e)
         | Inr r \<Rightarrow>
             let lin = Line (ray_pt r) (ray_norm r);
                 resp_edges = poly_search polygon (ray_box r)
             in
               if length resp_edges = 0 then Some (Inr OUTSIDE)
               else
                 (case collect tol isect (poly_edges polygon) r point resp_edges [] of
                    Inl e \<Rightarrow> Some (Inl e)
                  | Inr None \<Rightarrow> Some (Inr BOUNDARY)
                  | Inr (Some intersections) \<Rightarrow>
                      (case count_crossings tol lin (poly_edges polygon) None
                              (sort_by (compare_x tol) intersections) 0 of
                         None \<Rightarrow> None
                       | Some (Inl e) \<Rightarrow> Some (Inl e)
                       | Some (Inr counter) \<Rightarrow>
                           Some (Inr (if counter mod 2 = 1 then INSIDE else OUTSIDE))))))"

section \<open>The collaborators of the scenarios\<close>

text \<open>
  Modelled from the spec: \<^verbatim>\<open>Line.intersect\<close> for a segment is not among the sources.
  Section 4.1 says it produces 0, 1 or 2 points. An endpoint that is on the line is an
  intersection point, both endpoints when the segment lies on the line. Otherwise
  there is a point only when the endpoints are on different sides of the line: the
  point the line has in common with the line through the endpoints, by Cramer's rule
  on the two equations \<open>A x + B y = C\<close>.
\<close>

definition Line_through :: "point \<Rightarrow> point \<Rightarrow> line" where
  "Line_through p q = Line p (Vector (- (py q - py p)) (px q - px p))"

definition intersectLine2Line :: "real \<Rightarrow> line \<Rightarrow> line \<Rightarrow> point list" where
  "intersectLine2Line tol l1 l2 =
     (let A1 = vx (line_norm l1); B1 = vy (line_norm l1);
          C1 = A1 * px (line_pt l1) + B1 * py (line_pt l1);
          A2 = vx (line_norm l2); B2 = vy (line_norm l2);
          C2 = A2 * px (line_pt l2) + B2 * py (line_pt l2);
          det = A1 * B2 - B1 * A2
      in if EQ_0 tol det then []
         else [Point ((C1 * B2 - B1 * C2) / det) ((A1 * C2 - C1 * A2) / det)])"

definition intersectLine2Segment :: "real \<Rightarrow> line \<Rightarrow> segment \<Rightarrow> point list" where
  "intersectLine2Segment tol l s =
     (let zero_segment = EQ_0 tol (segment_length s);
          ip = (if on_line tol (ps s) l then [ps s] else []) @
               (if on_line tol (pe s) l \<and> \<not> zero_segment then [pe s] else [])
      in if 0 < length ip then ip
         else if zero_segment then []
         else if (leftTo tol (ps s) l \<and> leftTo tol (pe s) l) \<or>
                 (\<not> leftTo tol (ps s) l \<and> \<not> leftTo tol (pe s) l) then []
         else intersectLine2Line tol (Line_through (ps s) (pe s)) l)"

text \<open>
  \<^verbatim>\<open>Line.intersect(shape)\<close> with the segments as above; what it answers for an arc is
  the parameter \<open>arcs\<close>.
\<close>

definition line_intersect :: "real \<Rightarrow> (line \<Rightarrow> arc \<Rightarrow> point list) \<Rightarrow> line_intersect" where
  "line_intersect tol arcs l c =
     (case c of Segment s \<Rightarrow> intersectLine2Segment tol l s | Arc a \<Rightarrow> arcs l a)"

text \<open>
  Modelled from the spec: the edge collection is not among the sources. Section 9 gives
  the contract of \<^verbatim>\<open>search\<close>: all edges whose bounding box intersects the query box,
  and allows a linear scan in its place.
\<close>

definition overlaps :: "box \<Rightarrow> edge \<Rightarrow> bool" where
  "overlaps b ed =
     (case e_shape ed of
        Curve c \<Rightarrow> \<not> not_intersect (curve_box c) b
      | OtherShape n \<Rightarrow> False)"

definition linear_search :: "edge list \<Rightarrow> box \<Rightarrow> nat list" where
  "linear_search es b = filter (\<lambda>i. overlaps b (es ! i)) [0..<length es]"

text \<open>A straight edge from \<open>(a, b)\<close> to \<open>(c, d)\<close> with its two links.\<close>

definition straight :: "real \<Rightarrow> real \<Rightarrow> real \<Rightarrow> real \<Rightarrow> nat \<Rightarrow> nat \<Rightarrow> edge" where
  "straight a b c d p n =
     \<lparr>e_shape = Curve (Segment (Segment_new (Point a b) (Point c d))), e_prev = p, e_next = n\<rparr>"

text \<open>The unit square with the vertices \<open>(0,0)\<close>, \<open>(1,0)\<close>, \<open>(1,1)\<close>, \<open>(0,1)\<close>.\<close>

definition unit_square_edges :: "edge list" where
  "unit_square_edges =
     [straight 0 0 1 0 3 1, straight 1 0 1 1 0 2, straight 1 1 0 1 1 3, straight 0 1 0 0 2 0]"

definition unit_square :: polygon where
  "unit_square =
     \<lparr>poly_box = Box (Fin 0) (Fin 0) (Fin 1) (Fin 1),
      poly_edges = unit_square_edges,
      poly_search = linear_search unit_square_edges\<rparr>"

text \<open>
  The unit square with a second face inside it: one edge of length zero at
  \<open>(3/4, 1/2)\<close>, linked to itself.
\<close>

definition speck_square_edges :: "edge list" where
  "speck_square_edges = unit_square_edges @ [straight (3/4) (1/2) (3/4) (1/2) 4 4]"

definition speck_square :: polygon where
  "speck_square =
     \<lparr>poly_box = Box (Fin 0) (Fin 0) (Fin 1) (Fin 1),
      poly_edges = speck_square_edges,
      poly_search = linear_search speck_square_edges\<rparr>"

text \<open>
  The unit square with the vertex \<open>(1,0)\<close> twice: the edge at position 1 has length
  zero.
\<close>

definition doubled_vertex_edges :: "edge list" where
  "doubled_vertex_edges =
     [straight 0 0 1 0 4 1, straight 1 0 1 0 0 2, straight 1 0 1 1 1 3,
      straight 1 1 0 1 2 4, straight 0 1 0 0 3 0]"

definition doubled_vertex_square :: polygon where
  "doubled_vertex_square =
     \<lparr>poly_box = Box (Fin 0) (Fin 0) (Fin 1) (Fin 1),
      poly_edges = doubled_vertex_edges,
      poly_search = linear_search doubled_vertex_edges\<rparr>"

text \<open>
  An edge that is an arc: the upper half of the circle of radius 1 around \<open>(1,0)\<close>, from
  \<open>(0,0)\<close> over its top \<open>(1,1)\<close> to \<open>(2,0)\<close>, closed by the segment back to \<open>(0,0)\<close>.
\<close>

definition dome :: arc where
  "dome =
     \<lparr>arc_start = Point 0 0, arc_end = Point 2 0,
      arc_box = Box (Fin 0) (Fin 0) (Fin 2) (Fin 1),
      arc_tangentInStart = Vector 0 1, arc_tangentInEnd = Vector 0 1,
      arc_length = pi\<rparr>"

definition dome_edges :: "edge list" where
  "dome_edges = [\<lparr>e_shape = Curve (Arc dome), e_prev = 1, e_next = 1\<rparr>, straight 2 0 0 0 0 0]"



section \<open>Notions the statements use\<close>

text \<open>
  One step of a walk from position \<open>i\<close> along a link (\<open>e_prev\<close> or \<open>e_next\<close>), and
  whether the walk goes on at \<open>i\<close>: there is an edge there and its length is zero.
\<close>

definition follow :: "(edge \<Rightarrow> nat) \<Rightarrow> edge list \<Rightarrow> nat \<Rightarrow> nat" where
  "follow link es i = (case edge_at es i of Some ed \<Rightarrow> link ed | None \<Rightarrow> i)"

definition skippable :: "real \<Rightarrow> edge list \<Rightarrow> nat \<Rightarrow> bool" where
  "skippable tol es i = (case edge_at es i of Some ed \<Rightarrow> zero_length tol ed | None \<Rightarrow> False)"

text \<open>
  A walk from position \<open>i\<close> takes \<open>m\<close> steps: it goes on at the first \<open>m\<close> positions it
  visits and stops at the next one.
\<close>

definition walk_steps :: "real \<Rightarrow> edge list \<Rightarrow> (edge \<Rightarrow> nat) \<Rightarrow> nat \<Rightarrow> nat \<Rightarrow> bool" where
  "walk_steps tol es link i m =
     (list_all (\<lambda>j. skippable tol es ((follow link es ^^ j) i)) [0..<m] \<and>
      \<not> skippable tol es ((follow link es ^^ m) i))"

text \<open>What a walk returns when it stops at position \<open>j\<close>.\<close>

definition stops_at :: "edge list \<Rightarrow> nat \<Rightarrow> error + nat" where
  "stops_at es j = (if j < length es then Inr j else Inl TypeError)"

text \<open>
  The result of \<^verbatim>\<open>Ray.intersect\<close> in the words of section 4.1, steps 2 to 4: the points
  of line and shape that the ray contains, and for a segment the origin once more
  under the recovery rule.
\<close>

definition filtered :: "real \<Rightarrow> line_intersect \<Rightarrow> ray \<Rightarrow> curve \<Rightarrow> point list" where
  "filtered tol isect r c = filter (contains tol r) (isect (Line (ray_pt r) (ray_norm r)) c)"

definition recovered :: "real \<Rightarrow> line_intersect \<Rightarrow> ray \<Rightarrow> segment \<Rightarrow> point list" where
  "recovered tol isect r s =
     (if length (isect (Line (ray_pt r) (ray_norm r)) (Segment s)) = 2 \<and>
         length (filtered tol isect r (Segment s)) = 1 \<and>
         on_line tol (ray_pt r) (Line (ray_pt r) (ray_norm r))
      then filtered tol isect r (Segment s) @ [ray_pt r]
      else filtered tol isect r (Segment s))"

section \<open>The ray: construction, containment, splitting, box\<close>

lemma Ray_new_accepts:
  "Ray_new [] = Inr \<lparr>ray_pt = Point 0 0, ray_norm = Vector 0 1\<rparr>"
  "Ray_new [PointArg p] = Inr \<lparr>ray_pt = p, ray_norm = Vector 0 1\<rparr>"
  "Ray_new [PointArg p, VectorArg v] = Inr \<lparr>ray_pt = p, ray_norm = v\<rparr>"
  by (simp_all add: Ray_new_def)

lemma Ray_new_rejects:
  "Ray_new [a, PointArg q] = Inl ILLEGAL_PARAMETERS"
  "Ray_new [a, OtherArg] = Inl ILLEGAL_PARAMETERS"
  "Ray_new (a # b # c # args) = Inl ILLEGAL_PARAMETERS"
  by (simp_all add: Ray_new_def)

text \<open>
  C5, at the inputs where the constructor departs from it: a single argument that is
  not a Point, and a Vector after an argument that is not a Point, are accepted. The
  constructor returns a ray with the default origin \<open>(0,0)\<close> and does not fail with the
  illegal-parameters error.
\<close>

theorem Ray_new_accepts_non_point:
  "Ray_new [OtherArg] = Inr \<lparr>ray_pt = Point 0 0, ray_norm = Vector 0 1\<rparr> \<and>
   Ray_new [VectorArg v] = Inr \<lparr>ray_pt = Point 0 0, ray_norm = Vector 0 1\<rparr> \<and>
   Ray_new [OtherArg, VectorArg v] = Inr \<lparr>ray_pt = Point 0 0, ray_norm = v\<rparr>"
  by (simp add: Ray_new_def)

text \<open>
  C7: for every ray and every point \<open>p\<close>, \<open>contains\<close> is true exactly when \<open>p\<close> equals
  the origin under the tolerance, or the vector from the origin to \<open>p\<close> has a dot
  product with the normal that is zero under the tolerance and a cross product with
  the normal that is at least zero under the tolerance. With a positive epsilon the
  ray contains its own origin.
\<close>

theorem contains_iff:
  "(contains tol r p \<longleftrightarrow>
      equalTo tol (ray_pt r) p \<or>
      (EQ_0 tol (dot (ray_norm r) (Vector_between (ray_pt r) p)) \<and>
       GE tol (cross (Vector_between (ray_pt r) p) (ray_norm r)) 0)) \<and>
   (0 < tol \<longrightarrow> contains tol r (ray_pt r))"
proof
  show "contains tol r p \<longleftrightarrow>
      equalTo tol (ray_pt r) p \<or>
      (EQ_0 tol (dot (ray_norm r) (Vector_between (ray_pt r) p)) \<and>
       GE tol (cross (Vector_between (ray_pt r) p) (ray_norm r)) 0)"
    by (auto simp: contains_def Let_def)
  show "0 < tol \<longrightarrow> contains tol r (ray_pt r)"
    by (simp add: contains_def equalTo_def EQ_def)
qed

theorem contains_iff_witness:
  "(0::real) < 1 / 1000000 \<and>
   contains (1 / 1000000) \<lparr>ray_pt = Point 3 4, ray_norm = Vector 0 1\<rparr> (Point 3 4) \<and>
   contains (1 / 1000000) \<lparr>ray_pt = Point 3 4, ray_norm = Vector 0 1\<rparr> (Point 5 4) \<and>
   \<not> contains (1 / 1000000) \<lparr>ray_pt = Point 3 4, ray_norm = Vector 0 1\<rparr> (Point 2 4) \<and>
   \<not> contains (1 / 1000000) \<lparr>ray_pt = Point 3 4, ray_norm = Vector 0 1\<rparr> (Point 5 5)"
  using contains_iff [of "1 / 1000000" "\<lparr>ray_pt = Point 3 4, ray_norm = Vector 0 1\<rparr>" "Point 3 4"]
    contains_iff [of "1 / 1000000" "\<lparr>ray_pt = Point 3 4, ray_norm = Vector 0 1\<rparr>" "Point 5 4"]
    contains_iff [of "1 / 1000000" "\<lparr>ray_pt = Point 3 4, ray_norm = Vector 0 1\<rparr>" "Point 2 4"]
    contains_iff [of "1 / 1000000" "\<lparr>ray_pt = Point 3 4, ray_norm = Vector 0 1\<rparr>" "Point 5 5"]
  by (simp add: equalTo_def EQ_def EQ_0_def GE_def dot_def cross_def Vector_between_def
      Point_def Vector_def)

text \<open>
  C8: for every ray and point \<open>p\<close>, \<open>split\<close> returns the empty array when the ray does
  not contain \<open>p\<close>; the one-element array with the ray itself when \<open>p\<close> equals the
  origin; and otherwise the segment from the origin to \<open>p\<close> followed by a new ray that
  starts at \<open>p\<close> with the same normal. It never fails.
\<close>

theorem ray_split_cases:
  "ray_split tol r p =
     Inr (if \<not> contains tol r p then []
          else if equalTo tol (ray_pt r) p then [RayPart r]
          else [SegmentPart \<lparr>ps = ray_pt r, pe = p\<rparr>,
                RayPart \<lparr>ray_pt = p, ray_norm = ray_norm r\<rparr>])"
  by (simp add: ray_split_def Ray_new_def Segment_new_def)

text \<open>
  C9: for every ray, the box has \<open>xmin\<close> at the origin's x unless the slope is strictly
  between \<open>\<pi>/2\<close> and \<open>3\<pi>/2\<close> (then minus infinity), \<open>xmax\<close> at the origin's x when the
  slope is in \<open>[\<pi>/2, 3\<pi>/2]\<close> (else plus infinity), \<open>ymin\<close> at the origin's y when the
  slope is in \<open>[0, \<pi>]\<close> (else minus infinity), and \<open>ymax\<close> at the origin's y when the
  slope is in \<open>[\<pi>, 2\<pi>]\<close> or equal to 0 (else plus infinity).
\<close>

theorem ray_box_bounds:
  "xmin (ray_box r) =
     (if pi / 2 < slope r \<and> slope r < 3 * pi / 2 then NegInf else Fin (px (ray_pt r))) \<and>
   xmax (ray_box r) =
     (if pi / 2 \<le> slope r \<and> slope r \<le> 3 * pi / 2 then Fin (px (ray_pt r)) else PosInf) \<and>
   ymin (ray_box r) =
     (if 0 \<le> slope r \<and> slope r \<le> pi then Fin (py (ray_pt r)) else NegInf) \<and>
   ymax (ray_box r) =
     (if (pi \<le> slope r \<and> slope r \<le> 2 * pi) \<or> slope r = 0 then Fin (py (ray_pt r))
      else PosInf)"
  by (simp add: ray_box_def Let_def Box_def)

lemma slope_default: "slope \<lparr>ray_pt = p, ray_norm = Vector 0 1\<rparr> = 0"
  by (simp add: slope_def vector_slope_def atan2_def Vector_def)

lemma ray_box_default:
  "ray_box \<lparr>ray_pt = p, ray_norm = Vector 0 1\<rparr> = Box (Fin (px p)) (Fin (py p)) PosInf (Fin (py p))"
proof -
  have "\<not> pi \<le> 0" using pi_gt_zero by linarith
  then show ?thesis by (simp add: ray_box_def slope_default Let_def)
qed

section \<open>The ray: intersection with a shape\<close>

lemmas geom_defs = Point_def Vector_def Box_def Line_def Segment_new_def straight_def
  Vector_between_def dot_def cross_def vector_length_def segment_length_def segment_box_def
  point_box_def translate_def

lemmas tol_defs = EQ_0_def EQ_def GT_def GE_def LT_def equalTo_def leftTo_def on_line_def
  line_contains_def

lemma point_sel: "px (Point a b) = a" "py (Point a b) = b"
  by (simp_all add: Point_def)

text \<open>
  C4, as the code has it: \<open>intersect\<close> with a segment returns the empty array when the
  box of the ray and the box of the segment do not overlap; otherwise it returns the
  points of line and segment that the ray contains, and adds the origin of the ray
  exactly when the line gave 2 points, the filter kept 1 and the origin is on the
  line. With an arc it returns the empty array when the boxes do not overlap and
  otherwise the filtered points; the origin is never added.
\<close>

theorem intersect_after_fast_reject:
  "intersect tol isect r (Curve (Segment s)) =
     Some (if not_intersect (ray_box r) (segment_box s) then [] else recovered tol isect r s) \<and>
   intersect tol isect r (Curve (Arc a)) =
     Some (if not_intersect (ray_box r) (arc_box a) then [] else filtered tol isect r (Arc a))"
  by (simp add: intersect_def intersectRay2Segment_def intersectRay2Arc_def recovered_def
      filtered_def ray_start_def Let_def)

text \<open>
  C4 as stated, without the fast reject, fails: the horizontal ray from \<open>(0,0)\<close> and the
  vertical segment half an epsilon to the left of the origin. The line meets the
  segment in a point that equals the origin under the tolerance, so the ray contains
  it; the boxes do not overlap, and \<open>intersect\<close> returns the empty array.
\<close>

theorem fast_reject_drops_contained_point:
  "intersect (1 / 1000000) (line_intersect (1 / 1000000) (\<lambda>l a. []))
     \<lparr>ray_pt = Point 0 0, ray_norm = Vector 0 1\<rparr>
     (Curve (Segment (Segment_new (Point (- (1 / 2000000)) (- (1/2)))
                                  (Point (- (1 / 2000000)) (1/2)))))
     = Some [] \<and>
   recovered (1 / 1000000) (line_intersect (1 / 1000000) (\<lambda>l a. []))
     \<lparr>ray_pt = Point 0 0, ray_norm = Vector 0 1\<rparr>
     (Segment_new (Point (- (1 / 2000000)) (- (1/2))) (Point (- (1 / 2000000)) (1/2)))
     = [Point (- (1 / 2000000)) 0]"
proof
  show "intersect (1 / 1000000) (line_intersect (1 / 1000000) (\<lambda>l a. []))
     \<lparr>ray_pt = Point 0 0, ray_norm = Vector 0 1\<rparr>
     (Curve (Segment (Segment_new (Point (- (1 / 2000000)) (- (1/2)))
                                  (Point (- (1 / 2000000)) (1/2)))))
     = Some []"
    by (simp add: intersect_def intersectRay2Segment_def ray_box_default)
      (simp add: not_intersect_def geom_defs)
  have "intersectLine2Segment (1 / 1000000) (Line (Point 0 0) (Vector 0 1))
      (Segment_new (Point (- (1 / 2000000)) (- (1/2))) (Point (- (1 / 2000000)) (1/2)))
      = [Point (- (1 / 2000000)) 0]"
    by (simp add: intersectLine2Segment_def intersectLine2Line_def Line_through_def Let_def
        geom_defs tol_defs)
  then show "recovered (1 / 1000000) (line_intersect (1 / 1000000) (\<lambda>l a. []))
     \<lparr>ray_pt = Point 0 0, ray_norm = Vector 0 1\<rparr>
     (Segment_new (Point (- (1 / 2000000)) (- (1/2))) (Point (- (1 / 2000000)) (1/2)))
     = [Point (- (1 / 2000000)) 0]"
    by (simp add: recovered_def filtered_def line_intersect_def)
      (simp add: contains_def geom_defs tol_defs)
qed

section \<open>Ray shooting: a shape of neither class\<close>

lemma collect_append:
  "collect tol isect es r p (pre @ rest) acc =
     (case collect tol isect es r p pre acc of
        Inr (Some acc') \<Rightarrow> collect tol isect es r p rest acc'
      | other \<Rightarrow> other)"
  by (induction pre arbitrary: acc) (auto split: option.splits sum.splits)

text \<open>
  C10: for every shape that is neither a Segment nor an Arc, \<open>intersect\<close> returns
  \<^verbatim>\<open>undefined\<close>, not an array and not an error. The caller that iterates over the
  result fails: when the search answers with an edge of such a shape, and the edges
  before it end the loop neither with \<open>BOUNDARY\<close> nor with an error, \<open>ray_shoot\<close> is a
  \<open>TypeError\<close>.
\<close>

theorem intersect_undefined_for_other_shape:
  "intersect tol isect r (OtherShape n) = None \<and>
   (\<not> not_intersect (poly_box P) (point_box p) \<and>
    poly_search P (ray_box \<lparr>ray_pt = p, ray_norm = Vector 0 1\<rparr>) = pre @ e # rest \<and>
    collect tol isect (poly_edges P) \<lparr>ray_pt = p, ray_norm = Vector 0 1\<rparr> p pre [] =
      Inr (Some acc) \<and>
    edge_at (poly_edges P) e = Some ed \<and> e_shape ed = OtherShape n \<longrightarrow>
    ray_shoot tol isect P p = Some (Inl TypeError))"
  by (auto simp: intersect_def ray_shoot_def Ray_new_def collect_append Let_def)

theorem intersect_undefined_for_other_shape_witness:
  "ray_shoot (1 / 1000000) (line_intersect (1 / 1000000) (\<lambda>l a. []))
     \<lparr>poly_box = Box (Fin 0) (Fin 0) (Fin 1) (Fin 1),
      poly_edges = [\<lparr>e_shape = OtherShape ''Circle'', e_prev = 0, e_next = 0\<rparr>],
      poly_search = (\<lambda>b. [0])\<rparr>
     (Point (1/2) (1/2)) = Some (Inl TypeError)"
proof -
  let ?P = "\<lparr>poly_box = Box (Fin 0) (Fin 0) (Fin 1) (Fin 1),
      poly_edges = [\<lparr>e_shape = OtherShape ''Circle'', e_prev = 0, e_next = 0\<rparr>],
      poly_search = (\<lambda>b. [0])\<rparr>"
  let ?p = "Point (1/2) (1/2)"
  let ?isect = "line_intersect (1 / 1000000) (\<lambda>l a. [])"
  have h: "\<not> not_intersect (poly_box ?P) (point_box ?p) \<and>
    poly_search ?P (ray_box \<lparr>ray_pt = ?p, ray_norm = Vector 0 1\<rparr>) = [] @ 0 # [] \<and>
    collect (1 / 1000000) ?isect (poly_edges ?P) \<lparr>ray_pt = ?p, ray_norm = Vector 0 1\<rparr> ?p [] [] =
      Inr (Some []) \<and>
    edge_at (poly_edges ?P) 0 = Some \<lparr>e_shape = OtherShape ''Circle'', e_prev = 0, e_next = 0\<rparr> \<and>
    e_shape \<lparr>e_shape = OtherShape ''Circle'', e_prev = 0, e_next = 0\<rparr> = OtherShape ''Circle''"
    by (simp add: not_intersect_def edge_at_def geom_defs)
  show ?thesis
    using intersect_undefined_for_other_shape [THEN conjunct2, THEN mp, OF h] .
qed

section \<open>Ray shooting: the unit square\<close>

lemma upt4: "[0..<4] = [0, 1, 2, 3]"
  by (simp add: upt_rec)

lemma upt5: "[0..<5] = [0, 1, 2, 3, 4]"
  by (simp add: upt_rec)

lemma search_from_centre:
  "linear_search unit_square_edges (Box (Fin (1/2)) (Fin (1/2)) PosInf (Fin (1/2))) = [1]"
  by (simp add: linear_search_def unit_square_edges_def upt4 overlaps_def not_intersect_def
      geom_defs)

lemma search_from_right_edge:
  "linear_search unit_square_edges (Box (Fin 1) (Fin (1/2)) PosInf (Fin (1/2))) = [1]"
  by (simp add: linear_search_def unit_square_edges_def upt4 overlaps_def not_intersect_def
      geom_defs)

lemma isect_right_edge:
  assumes "0 < tol" "tol < 1/2"
  shows "intersectLine2Segment tol (Line (Point a (1/2)) (Vector 0 1))
           (Segment_new (Point 1 0) (Point 1 1)) = [Point 1 (1/2)]"
  using assms
  by (simp add: intersectLine2Segment_def intersectLine2Line_def Line_through_def Let_def
      geom_defs tol_defs)

lemma ray_meets_right_edge:
  assumes "0 < tol" "tol < 1/2" "a \<le> 1"
  shows "intersect tol (line_intersect tol arcs) \<lparr>ray_pt = Point a (1/2), ray_norm = Vector 0 1\<rparr>
           (e_shape (straight 1 0 1 1 0 2)) = Some [Point 1 (1/2)]"
  using assms isect_right_edge [OF assms(1,2), of a]
  apply (simp add: intersect_def straight_def intersectRay2Segment_def ray_box_default
      line_intersect_def ray_start_def Let_def)
  apply (simp add: not_intersect_def contains_def geom_defs tol_defs)
  done

lemma centre_is_inside:
  assumes "0 < tol" "tol < 1/2"
  shows "ray_shoot tol (line_intersect tol arcs) unit_square (Point (1/2) (1/2)) = Some (Inr INSIDE)"
proof -
  have ips: "intersect tol (line_intersect tol arcs)
      \<lparr>ray_pt = Point (1/2) (1/2), ray_norm = Vector 0 1\<rparr>
      (e_shape (unit_square_edges ! 1)) = Some [Point 1 (1/2)]"
    using ray_meets_right_edge [OF assms, of "1/2" arcs] by (simp add: unit_square_edges_def)
  show ?thesis
    using assms
    apply (simp add: ray_shoot_def unit_square_def Ray_new_def ray_box_default Let_def)
    apply (simp add: Point_def search_from_centre [unfolded Point_def Box_def, simplified] Box_def)
    apply (simp add: not_intersect_def point_box_def edge_at_def ips [unfolded Point_def, simplified])
    apply (simp add: unit_square_edges_def tol_defs sort_by_def count_one_def edge_at_def geom_defs)
    done
qed

lemma far_right_is_outside:
  "ray_shoot tol isect unit_square (Point 2 (1/2)) = Some (Inr OUTSIDE)"
  by (simp add: ray_shoot_def unit_square_def not_intersect_def geom_defs)

lemma right_edge_is_boundary:
  assumes "0 < tol" "tol < 1/2"
  shows "ray_shoot tol (line_intersect tol arcs) unit_square (Point 1 (1/2)) = Some (Inr BOUNDARY)"
proof -
  have ips: "intersect tol (line_intersect tol arcs)
      \<lparr>ray_pt = Point 1 (1/2), ray_norm = Vector 0 1\<rparr>
      (e_shape (unit_square_edges ! 1)) = Some [Point 1 (1/2)]"
    using ray_meets_right_edge [OF assms, of 1 arcs] by (simp add: unit_square_edges_def)
  show ?thesis
    using assms
    apply (simp add: ray_shoot_def unit_square_def Ray_new_def ray_box_default Let_def)
    apply (simp add: Point_def search_from_right_edge [unfolded Point_def Box_def, simplified] Box_def)
    apply (simp add: not_intersect_def point_box_def edge_at_def ips [unfolded Point_def, simplified])
    apply (simp add: unit_square_edges_def tol_defs)
    done
qed

text \<open>
  C1: for the unit square with the vertices \<open>(0,0)\<close>, \<open>(1,0)\<close>, \<open>(1,1)\<close>, \<open>(0,1)\<close>,
  \<open>ray_shoot\<close> returns \<open>INSIDE\<close> for the point \<open>(0.5, 0.5)\<close>, \<open>OUTSIDE\<close> for \<open>(2, 0.5)\<close> and
  \<open>BOUNDARY\<close> for \<open>(1, 0.5)\<close> on the right edge. This holds for every epsilon that is
  positive and below one half, and whatever \<^verbatim>\<open>Line.intersect\<close> answers for arcs.
\<close>

theorem unit_square_scenarios:
  "0 < tol \<Longrightarrow> tol < 1 / 2 \<Longrightarrow>
   ray_shoot tol (line_intersect tol arcs) unit_square (Point (1/2) (1/2)) = Some (Inr INSIDE) \<and>
   ray_shoot tol (line_intersect tol arcs) unit_square (Point 2 (1/2)) = Some (Inr OUTSIDE) \<and>
   ray_shoot tol (line_intersect tol arcs) unit_square (Point 1 (1/2)) = Some (Inr BOUNDARY)"
  by (simp add: centre_is_inside far_right_is_outside right_edge_is_boundary)

theorem unit_square_scenarios_witness:
  "(0::real) < 1 / 1000000 \<and> (1::real) / 1000000 < 1 / 2 \<and>
   ray_shoot (1 / 1000000) (line_intersect (1 / 1000000) (\<lambda>l a. [])) unit_square
     (Point (1/2) (1/2)) = Some (Inr INSIDE) \<and>
   ray_shoot (1 / 1000000) (line_intersect (1 / 1000000) (\<lambda>l a. [])) unit_square
     (Point 2 (1/2)) = Some (Inr OUTSIDE) \<and>
   ray_shoot (1 / 1000000) (line_intersect (1 / 1000000) (\<lambda>l a. [])) unit_square
     (Point 1 (1/2)) = Some (Inr BOUNDARY)"
  using unit_square_scenarios [of "1 / 1000000" "\<lambda>l a. []"] by simp

section \<open>Ray shooting: the walks over edges of length zero\<close>

lemma skip_prev_unfold:
  "skip_prev tol es i =
     (if skippable tol es i then skip_prev tol es (follow e_prev es i) else Some (stops_at es i))"
  by (subst skip_prev.simps)
    (simp add: skippable_def follow_def stops_at_def edge_at_def split: option.splits)

lemma skip_next_unfold:
  "skip_next tol es i =
     (if skippable tol es i then skip_next tol es (follow e_next es i) else Some (stops_at es i))"
  by (subst skip_next.simps)
    (simp add: skippable_def follow_def stops_at_def edge_at_def split: option.splits)

lemma walk_reaches:
  assumes unfold: "\<And>i. w i = (if skippable tol es i then w (follow link es i) else Some (stops_at es i))"
  shows "\<forall>j<k. skippable tol es ((follow link es ^^ j) i) \<Longrightarrow>
         \<not> skippable tol es ((follow link es ^^ k) i) \<Longrightarrow>
         w i = Some (stops_at es ((follow link es ^^ k) i))"
proof (induction k arbitrary: i)
  case 0
  then show ?case using unfold [of i] by simp
next
  case (Suc k)
  have here: "skippable tol es i" using Suc.prems(1) [rule_format, of 0] by simp
  have "\<forall>j<k. skippable tol es ((follow link es ^^ j) (follow link es i))"
  proof (intro allI impI)
    fix j assume "j < k"
    then show "skippable tol es ((follow link es ^^ j) (follow link es i))"
      using Suc.prems(1) [rule_format, of "Suc j"] by (simp add: funpow_swap1)
  qed
  moreover have "\<not> skippable tol es ((follow link es ^^ k) (follow link es i))"
    using Suc.prems(2) by (simp add: funpow_swap1)
  ultimately have "w (follow link es i) = Some (stops_at es ((follow link es ^^ k) (follow link es i)))"
    by (rule Suc.IH)
  then show ?case using here unfold [of i] by (simp add: funpow_swap1)
qed

lemma skippable_in_range: "skippable tol es i \<Longrightarrow> i < length es"
  by (simp add: skippable_def edge_at_def split: if_splits)

lemma walk_distinct:
  fixes f :: "nat \<Rightarrow> nat"
  assumes skip: "\<forall>j<k. skippable tol es ((f ^^ j) i)"
    and stop: "\<not> skippable tol es ((f ^^ k) i)"
  shows "inj_on (\<lambda>j. (f ^^ j) i) {..k}"
proof (rule inj_onI)
  fix a b assume a: "a \<in> {..k}" and b: "b \<in> {..k}" and eq: "(f ^^ a) i = (f ^^ b) i"
  have main: "a' = b'" if "a' \<le> b'" "b' \<le> k" "(f ^^ a') i = (f ^^ b') i" for a' b'
  proof (rule ccontr)
    assume "a' \<noteq> b'"
    with that have lt: "a' < b'" by simp
    have "(f ^^ ((k - b') + a')) i = (f ^^ (k - b')) ((f ^^ a') i)" by (simp add: funpow_add)
    also have "\<dots> = (f ^^ (k - b')) ((f ^^ b') i)" using that by simp
    also have "\<dots> = (f ^^ ((k - b') + b')) i" by (simp add: funpow_add)
    also have "\<dots> = (f ^^ k) i" using that by simp
    finally have "(f ^^ ((k - b') + a')) i = (f ^^ k) i" .
    moreover have "(k - b') + a' < k" using lt that by simp
    ultimately show False using skip stop by metis
  qed
  show "a = b"
  proof (cases "a \<le> b")
    case True then show ?thesis using main [of a b] b eq by simp
  next
    case False then show ?thesis using main [of b a] a eq by simp
  qed
qed

lemma walk_bound:
  fixes f :: "nat \<Rightarrow> nat"
  assumes skip: "\<forall>j<k. skippable tol es ((f ^^ j) i)"
    and stop: "\<not> skippable tol es ((f ^^ k) i)"
  shows "k \<le> length es"
proof -
  have inj: "inj_on (\<lambda>j. (f ^^ j) i) {..<k}"
    using walk_distinct [OF skip stop] by (rule inj_on_subset) auto
  have "(\<lambda>j. (f ^^ j) i) ` {..<k} \<subseteq> {..<length es}"
    using skip skippable_in_range by auto
  then have "card {..<k} \<le> card {..<length es}"
    using inj by (metis card_inj_on_le finite_lessThan)
  then show ?thesis by simp
qed

lemma prev_returns_reaches:
  assumes "skip_prev tol es i = Some y"
  shows "\<exists>k. \<not> skippable tol es ((follow e_prev es ^^ k) i)"
proof (rule skip_prev.raw_induct
    [where P = "\<lambda>tol es i y. \<exists>k. \<not> skippable tol es ((follow e_prev es ^^ k) i)"])
  show "skip_prev tol es i = Some y" by (rule assms)
next
  fix f :: "real \<Rightarrow> edge list \<Rightarrow> nat \<Rightarrow> (error + nat) option" and tol es i and y :: "error + nat"
  assume IH: "\<And>tol es i y. f tol es i = Some y \<Longrightarrow>
      \<exists>k. \<not> skippable tol es ((follow e_prev es ^^ k) i)"
    and body: "(case edge_at es i of None \<Rightarrow> Some (Inl TypeError)
       | Some ed \<Rightarrow> if zero_length tol ed then f tol es (e_prev ed) else Some (Inr i)) = Some y"
  show "\<exists>k. \<not> skippable tol es ((follow e_prev es ^^ k) i)"
  proof (cases "skippable tol es i")
    case False
    then have "\<not> skippable tol es ((follow e_prev es ^^ 0) i)" by simp
    then show ?thesis by blast
  next
    case True
    then obtain ed where ed: "edge_at es i = Some ed" "zero_length tol ed"
      by (auto simp: skippable_def split: option.splits)
    with body have "f tol es (e_prev ed) = Some y" by simp
    then obtain k where "\<not> skippable tol es ((follow e_prev es ^^ k) (e_prev ed))"
      using IH by blast
    then have "\<not> skippable tol es ((follow e_prev es ^^ Suc k) i)"
      using ed by (simp add: funpow_swap1 follow_def)
    then show ?thesis by blast
  qed
qed


lemma next_returns_reaches:
  assumes "skip_next tol es i = Some y"
  shows "\<exists>k. \<not> skippable tol es ((follow e_next es ^^ k) i)"
proof (rule skip_next.raw_induct
    [where P = "\<lambda>tol es i y. \<exists>k. \<not> skippable tol es ((follow e_next es ^^ k) i)"])
  show "skip_next tol es i = Some y" by (rule assms)
next
  fix f :: "real \<Rightarrow> edge list \<Rightarrow> nat \<Rightarrow> (error + nat) option" and tol es i and y :: "error + nat"
  assume IH: "\<And>tol es i y. f tol es i = Some y \<Longrightarrow>
      \<exists>k. \<not> skippable tol es ((follow e_next es ^^ k) i)"
    and body: "(case edge_at es i of None \<Rightarrow> Some (Inl TypeError)
       | Some ed \<Rightarrow> if zero_length tol ed then f tol es (e_next ed) else Some (Inr i)) = Some y"
  show "\<exists>k. \<not> skippable tol es ((follow e_next es ^^ k) i)"
  proof (cases "skippable tol es i")
    case False
    then have "\<not> skippable tol es ((follow e_next es ^^ 0) i)" by simp
    then show ?thesis by blast
  next
    case True
    then obtain ed where ed: "edge_at es i = Some ed" "zero_length tol ed"
      by (auto simp: skippable_def split: option.splits)
    with body have "f tol es (e_next ed) = Some y" by simp
    then obtain k where "\<not> skippable tol es ((follow e_next es ^^ k) (e_next ed))"
      using IH by blast
    then have "\<not> skippable tol es ((follow e_next es ^^ Suc k) i)"
      using ed by (simp add: funpow_swap1 follow_def)
    then show ?thesis by blast
  qed
qed

lemma walk_steps_iff:
  "walk_steps tol es link i m \<longleftrightarrow>
     (\<forall>j<m. skippable tol es ((follow link es ^^ j) i)) \<and>
     \<not> skippable tol es ((follow link es ^^ m) i)"
  by (auto simp: walk_steps_def list_all_iff)

lemma first_stop:
  assumes "\<not> skippable tol es ((follow link es ^^ k) i)"
  shows "\<exists>m\<le>k. walk_steps tol es link i m"
proof -
  define m where "m = (LEAST n. \<not> skippable tol es ((follow link es ^^ n) i))"
  have stop: "\<not> skippable tol es ((follow link es ^^ m) i)"
    unfolding m_def using assms by (rule LeastI)
  have "m \<le> k" unfolding m_def using assms by (rule Least_le)
  moreover have "\<forall>j<m. skippable tol es ((follow link es ^^ j) i)"
    unfolding m_def using not_less_Least by blast
  ultimately show ?thesis using stop by (auto simp: walk_steps_iff)
qed


lemma prev_steps:
  assumes "walk_steps tol es e_prev i m"
  shows "m \<le> length es \<and> skip_prev tol es i = Some (stops_at es ((follow e_prev es ^^ m) i))"
proof -
  from assms have a: "\<forall>j<m. skippable tol es ((follow e_prev es ^^ j) i)"
    and b: "\<not> skippable tol es ((follow e_prev es ^^ m) i)"
    by (simp_all add: walk_steps_iff)
  show ?thesis
    using walk_bound [OF a b] walk_reaches [of "skip_prev tol es" tol es e_prev, OF skip_prev_unfold a b]
    by simp
qed

lemma next_steps:
  assumes "walk_steps tol es e_next i m"
  shows "m \<le> length es \<and> skip_next tol es i = Some (stops_at es ((follow e_next es ^^ m) i))"
proof -
  from assms have a: "\<forall>j<m. skippable tol es ((follow e_next es ^^ j) i)"
    and b: "\<not> skippable tol es ((follow e_next es ^^ m) i)"
    by (simp_all add: walk_steps_iff)
  show ?thesis
    using walk_bound [OF a b] walk_reaches [of "skip_next tol es" tol es e_next, OF skip_next_unfold a b]
    by simp
qed

lemma prev_returns_iff: "skip_prev tol es i \<noteq> None \<longleftrightarrow> (\<exists>m. walk_steps tol es e_prev i m)"
  using prev_returns_reaches first_stop prev_steps by (metis not_None_eq option.distinct(1))

lemma next_returns_iff: "skip_next tol es i \<noteq> None \<longleftrightarrow> (\<exists>m. walk_steps tol es e_next i m)"
  using next_returns_reaches first_stop next_steps by (metis not_None_eq option.distinct(1))

lemma out_of_range_steps: "\<not> i < length es \<Longrightarrow> walk_steps tol es link i 0"
  by (simp add: walk_steps_def skippable_def edge_at_def)

lemma count_one_returns:
  assumes "\<And>i. skip_prev tol es i \<noteq> None" and "\<And>i. skip_next tol es i \<noteq> None"
  shows "count_one tol lin es before x \<noteq> None"
proof -
  have a: "start_vertex tol lin es p ed c \<noteq> None" for p ed c
    using assms(1) [of "e_prev ed"]
    by (auto simp: start_vertex_def split: option.splits sum.splits)
  have b: "end_vertex tol lin es p ed c \<noteq> None" for p ed c
    using assms(2) [of "e_next ed"]
    by (auto simp: end_vertex_def split: option.splits sum.splits)
  show ?thesis
    using a b by (simp add: count_one_def split: option.splits shape.splits curve.splits)
qed

lemma count_crossings_returns:
  assumes "\<And>i. skip_prev tol es i \<noteq> None" and "\<And>i. skip_next tol es i \<noteq> None"
  shows "count_crossings tol lin es before xs counter \<noteq> None"
proof (induction xs arbitrary: before counter)
  case Nil
  then show ?case by simp
next
  case (Cons x xs)
  then show ?case
    using count_one_returns [OF assms, of lin before x]
    by (auto split: option.splits sum.splits)
qed

lemma ray_shoot_returns:
  assumes "\<And>i. skip_prev tol (poly_edges P) i \<noteq> None"
    and "\<And>i. skip_next tol (poly_edges P) i \<noteq> None"
  shows "ray_shoot tol isect P p \<noteq> None"
proof -
  have cc: "(count_crossings tol lin (poly_edges P) None xs 0 = None) = False" for lin xs
    using count_crossings_returns [OF assms, of lin None xs 0] by blast
  show ?thesis
    by (simp add: ray_shoot_def Let_def cc split: option.splits sum.splits)
qed

lemma dv_at:
  "edge_at doubled_vertex_edges 0 = Some (straight 0 0 1 0 4 1)"
  "edge_at doubled_vertex_edges (Suc 0) = Some (straight 1 0 1 0 0 2)"
  "edge_at doubled_vertex_edges 2 = Some (straight 1 0 1 1 1 3)"
  "edge_at doubled_vertex_edges 3 = Some (straight 1 1 0 1 2 4)"
  "edge_at doubled_vertex_edges 4 = Some (straight 0 1 0 0 3 0)"
  by (simp_all add: edge_at_def doubled_vertex_edges_def)

lemma dv_skippable:
  "\<not> skippable (1 / 1000000) doubled_vertex_edges 0"
  "skippable (1 / 1000000) doubled_vertex_edges (Suc 0)"
  "\<not> skippable (1 / 1000000) doubled_vertex_edges 2"
  "\<not> skippable (1 / 1000000) doubled_vertex_edges 3"
  "\<not> skippable (1 / 1000000) doubled_vertex_edges 4"
  by (simp_all add: skippable_def dv_at) (simp_all add: zero_length_def geom_defs EQ_0_def)

lemma dv_follow:
  "follow e_prev doubled_vertex_edges (Suc 0) = 0"
  "follow e_next doubled_vertex_edges (Suc 0) = 2"
  by (simp_all add: follow_def dv_at) (simp_all add: straight_def)

lemma dv_len: "length doubled_vertex_edges = 5"
  by (simp add: doubled_vertex_edges_def)

lemma dv_walks:
  "walk_steps (1 / 1000000) doubled_vertex_edges link 0 0"
  "walk_steps (1 / 1000000) doubled_vertex_edges e_prev (Suc 0) (Suc 0)"
  "walk_steps (1 / 1000000) doubled_vertex_edges e_next (Suc 0) (Suc 0)"
  "walk_steps (1 / 1000000) doubled_vertex_edges link 2 0"
  "walk_steps (1 / 1000000) doubled_vertex_edges link 3 0"
  "walk_steps (1 / 1000000) doubled_vertex_edges link 4 0"
  by (simp_all add: walk_steps_def dv_skippable dv_follow)

text \<open>
  C6, as the code has it: a walk over predecessor (or successor) edges returns exactly
  when it takes some number of steps, that is, when it meets an edge that is not of
  length zero (or a link that leads to no edge). It then takes at most as many steps
  as the polygon has edges and returns the position it stopped at. \<open>ray_shoot\<close>
  returns on every polygon in which the walk from each edge meets such an edge, in
  both directions.
\<close>

theorem walks_stop_within_edge_count:
  "(skip_prev tol es i \<noteq> None \<longleftrightarrow> (\<exists>m. walk_steps tol es e_prev i m)) \<and>
   (skip_next tol es i \<noteq> None \<longleftrightarrow> (\<exists>m. walk_steps tol es e_next i m)) \<and>
   (walk_steps tol es e_prev i m \<longrightarrow>
      m \<le> length es \<and> skip_prev tol es i = Some (stops_at es ((follow e_prev es ^^ m) i))) \<and>
   (walk_steps tol es e_next i m \<longrightarrow>
      m \<le> length es \<and> skip_next tol es i = Some (stops_at es ((follow e_next es ^^ m) i))) \<and>
   ((\<forall>i<length (poly_edges P).
       (\<exists>m. walk_steps tol (poly_edges P) e_prev i m) \<and>
       (\<exists>m. walk_steps tol (poly_edges P) e_next i m)) \<longrightarrow>
    ray_shoot tol isect P p \<noteq> None)"
proof (intro conjI)
  show "skip_prev tol es i \<noteq> None \<longleftrightarrow> (\<exists>m. walk_steps tol es e_prev i m)"
    by (rule prev_returns_iff)
  show "skip_next tol es i \<noteq> None \<longleftrightarrow> (\<exists>m. walk_steps tol es e_next i m)"
    by (rule next_returns_iff)
  show "walk_steps tol es e_prev i m \<longrightarrow>
      m \<le> length es \<and> skip_prev tol es i = Some (stops_at es ((follow e_prev es ^^ m) i))"
    using prev_steps by blast
  show "walk_steps tol es e_next i m \<longrightarrow>
      m \<le> length es \<and> skip_next tol es i = Some (stops_at es ((follow e_next es ^^ m) i))"
    using next_steps by blast
  show "(\<forall>i<length (poly_edges P).
       (\<exists>m. walk_steps tol (poly_edges P) e_prev i m) \<and>
       (\<exists>m. walk_steps tol (poly_edges P) e_next i m)) \<longrightarrow>
    ray_shoot tol isect P p \<noteq> None"
  proof
    assume wf: "\<forall>i<length (poly_edges P).
       (\<exists>m. walk_steps tol (poly_edges P) e_prev i m) \<and>
       (\<exists>m. walk_steps tol (poly_edges P) e_next i m)"
    have "skip_prev tol (poly_edges P) i \<noteq> None" for i
      using wf out_of_range_steps [of i "poly_edges P" tol e_prev]
      unfolding prev_returns_iff by blast
    moreover have "skip_next tol (poly_edges P) i \<noteq> None" for i
      using wf out_of_range_steps [of i "poly_edges P" tol e_next]
      unfolding next_returns_iff by blast
    ultimately show "ray_shoot tol isect P p \<noteq> None" by (rule ray_shoot_returns)
  qed
qed

theorem walks_stop_within_edge_count_witness:
  "walk_steps (1 / 1000000) doubled_vertex_edges e_prev 1 1 \<and>
   walk_steps (1 / 1000000) doubled_vertex_edges e_next 1 1 \<and>
   skip_prev (1 / 1000000) doubled_vertex_edges 1 = Some (Inr 0) \<and>
   skip_next (1 / 1000000) doubled_vertex_edges 1 = Some (Inr 2) \<and>
   ray_shoot (1 / 1000000) (line_intersect (1 / 1000000) (\<lambda>l a. [])) doubled_vertex_square
     (Point (1/2) (1/2)) \<noteq> None"
proof -
  let ?tol = "1 / 1000000 :: real"
  have wf: "\<forall>i<length (poly_edges doubled_vertex_square).
       (\<exists>m. walk_steps ?tol (poly_edges doubled_vertex_square) e_prev i m) \<and>
       (\<exists>m. walk_steps ?tol (poly_edges doubled_vertex_square) e_next i m)"
  proof (intro allI impI)
    fix i assume "i < length (poly_edges doubled_vertex_square)"
    then have "i < 5" by (simp add: doubled_vertex_square_def dv_len)
    then have "i = 0 \<or> i = Suc 0 \<or> i = 2 \<or> i = 3 \<or> i = 4" by arith
    then show "(\<exists>m. walk_steps ?tol (poly_edges doubled_vertex_square) e_prev i m) \<and>
       (\<exists>m. walk_steps ?tol (poly_edges doubled_vertex_square) e_next i m)"
      unfolding doubled_vertex_square_def
      by (elim disjE; simp; blast intro: dv_walks)
  qed
  have p: "walk_steps ?tol doubled_vertex_edges e_prev 1 1"
    and n: "walk_steps ?tol doubled_vertex_edges e_next 1 1"
    using dv_walks by simp_all
  note inst = walks_stop_within_edge_count [of ?tol doubled_vertex_edges 1 1 doubled_vertex_square
      "line_intersect ?tol (\<lambda>l a. [])" "Point (1/2) (1/2)"]
  from inst p have "skip_prev ?tol doubled_vertex_edges 1 = Some (stops_at doubled_vertex_edges
      ((follow e_prev doubled_vertex_edges ^^ 1) 1))" by blast
  then have a: "skip_prev ?tol doubled_vertex_edges 1 = Some (Inr 0)"
    by (simp add: dv_follow stops_at_def dv_len)
  from inst n have "skip_next ?tol doubled_vertex_edges 1 = Some (stops_at doubled_vertex_edges
      ((follow e_next doubled_vertex_edges ^^ 1) 1))" by blast
  then have b: "skip_next ?tol doubled_vertex_edges 1 = Some (Inr 2)"
    by (simp add: dv_follow stops_at_def dv_len)
  from inst wf have c: "ray_shoot ?tol (line_intersect ?tol (\<lambda>l a. [])) doubled_vertex_square
     (Point (1/2) (1/2)) \<noteq> None" by blast
  show ?thesis using p n a b c by blast
qed

lemma speck_loops: "skip_prev (1 / 1000000) speck_square_edges 4 = None"
proof (cases "skip_prev (1 / 1000000) speck_square_edges 4")
  case None
  then show ?thesis .
next
  case (Some y)
  have at: "edge_at speck_square_edges 4 = Some (straight (3/4) (1/2) (3/4) (1/2) 4 4)"
    by (simp add: edge_at_def speck_square_edges_def unit_square_edges_def)
  have step: "follow e_prev speck_square_edges 4 = 4"
    by (simp add: follow_def at) (simp add: straight_def)
  have stay: "(follow e_prev speck_square_edges ^^ k) 4 = 4" for k
    by (induction k) (simp_all add: step)
  have "skippable (1 / 1000000) speck_square_edges 4"
    by (simp add: skippable_def at) (simp add: zero_length_def geom_defs EQ_0_def)
  then have "skippable (1 / 1000000) speck_square_edges ((follow e_prev speck_square_edges ^^ k) 4)" for k
    by (simp add: stay)
  then show ?thesis using prev_returns_reaches [OF Some] by blast
qed

lemma speck_search:
  "linear_search speck_square_edges (Box (Fin (1/2)) (Fin (1/2)) PosInf (Fin (1/2))) = [1, 4]"
  by (simp add: linear_search_def speck_square_edges_def unit_square_edges_def upt5 overlaps_def
      not_intersect_def geom_defs)

lemma isect_speck:
  "intersectLine2Segment (1 / 1000000) (Line (Point (1/2) (1/2)) (Vector 0 1))
     (Segment_new (Point (3/4) (1/2)) (Point (3/4) (1/2))) = [Point (3/4) (1/2)]"
  by (simp add: intersectLine2Segment_def Let_def geom_defs tol_defs)

text \<open>
  C6 as stated, for every polygon, fails: the code has no bound on the walk. In the
  unit square with a second face that is one edge of length zero linked to itself, the
  walk from that edge never returns, and neither does \<open>ray_shoot\<close> from the centre of
  the square, whose ray meets that edge at its start vertex.
\<close>

theorem zero_length_ring_never_returns:
  "skip_prev (1 / 1000000) speck_square_edges 4 = None \<and>
   ray_shoot (1 / 1000000) (line_intersect (1 / 1000000) (\<lambda>l a. [])) speck_square
     (Point (1/2) (1/2)) = None"
proof
  show "skip_prev (1 / 1000000) speck_square_edges 4 = None" by (rule speck_loops)
  let ?tol = "1 / 1000000 :: real"
  let ?r = "\<lparr>ray_pt = Point (1/2) (1/2), ray_norm = Vector 0 1\<rparr>"
  let ?isect = "line_intersect ?tol (\<lambda>l a. [])"
  have e1: "edge_at speck_square_edges 1 = Some (straight 1 0 1 1 0 2)"
    and e4: "edge_at speck_square_edges 4 = Some (straight (3/4) (1/2) (3/4) (1/2) 4 4)"
    by (simp_all add: edge_at_def speck_square_edges_def unit_square_edges_def)
  have i1: "intersect ?tol ?isect ?r (e_shape (straight 1 0 1 1 0 2)) = Some [Point 1 (1/2)]"
    using isect_right_edge [of ?tol "1/2"]
    apply (simp add: intersect_def straight_def intersectRay2Segment_def ray_box_default
        line_intersect_def ray_start_def Let_def)
    apply (simp add: not_intersect_def contains_def geom_defs tol_defs)
    done
  have i4: "intersect ?tol ?isect ?r (e_shape (straight (3/4) (1/2) (3/4) (1/2) 4 4)) = Some [Point (3/4) (1/2)]"
    using isect_speck
    apply (simp add: intersect_def straight_def intersectRay2Segment_def ray_box_default
        line_intersect_def ray_start_def Let_def)
    apply (simp add: not_intersect_def contains_def geom_defs tol_defs)
    done
  have col: "collect ?tol ?isect speck_square_edges ?r (Point (1/2) (1/2)) [1, 4] [] =
      Inr (Some [\<lparr>i_pt = Point 1 (1/2), i_edge = 1\<rparr>, \<lparr>i_pt = Point (3/4) (1/2), i_edge = 4\<rparr>])"
    by (simp add: e1 e4 i1 i4 del: One_nat_def) (simp add: geom_defs tol_defs)
  have srt: "sort_by (compare_x ?tol)
      [\<lparr>i_pt = Point 1 (1/2), i_edge = 1\<rparr>, \<lparr>i_pt = Point (3/4) (1/2), i_edge = 4\<rparr>] =
      [\<lparr>i_pt = Point (3/4) (1/2), i_edge = 4\<rparr>, \<lparr>i_pt = Point 1 (1/2), i_edge = 1\<rparr>]"
    by (simp add: sort_by_def compare_x_def geom_defs tol_defs)
  have cnt: "count_one ?tol lin speck_square_edges None \<lparr>i_pt = Point (3/4) (1/2), i_edge = 4\<rparr> = None" for lin
    using speck_loops
    by (simp add: count_one_def e4)
      (simp add: already_counted_def start_vertex_def geom_defs tol_defs)
  show "ray_shoot ?tol ?isect speck_square (Point (1/2) (1/2)) = None"
    apply (simp add: ray_shoot_def speck_square_def Ray_new_def ray_box_default Let_def)
    apply (simp add: point_sel speck_search col srt cnt del: One_nat_def collect.simps)
    apply (simp add: not_intersect_def geom_defs)
    done
qed

section \<open>Ray shooting: the counting loop\<close>























text \<open>
  C3: in the counting loop, an entry whose point equals neither the start nor the end
  vertex of its edge adds one to the counter when the shape of the edge is a segment;
  when the shape is an arc it adds one exactly when the y coordinate of the point
  equals neither \<open>ymin\<close> nor \<open>ymax\<close> of the arc's box under the tolerance.
\<close>

theorem interior_crossing_rule:
  "edge_at es (i_edge x) = Some ed \<Longrightarrow> e_shape ed = Curve c \<Longrightarrow>
   \<not> equalTo tol (i_pt x) (curve_start c) \<Longrightarrow> \<not> equalTo tol (i_pt x) (curve_end c) \<Longrightarrow>
   count_crossings tol lin es before (x # xs) counter =
     count_crossings tol lin es (Some x) xs
       (case c of
          Segment s \<Rightarrow> counter + 1
        | Arc a \<Rightarrow>
            if \<not> (EQ_bound tol (py (i_pt x)) (ymin (arc_box a)) \<or>
                   EQ_bound tol (py (i_pt x)) (ymax (arc_box a)))
            then counter + 1 else counter)"
  by (auto simp: count_one_def split: curve.splits)

theorem interior_crossing_rule_witness:
  "count_crossings (1 / 1000000) (Line (Point (1/2) (1/2)) (Vector 0 1)) unit_square_edges None
     [\<lparr>i_pt = Point 1 (1/2), i_edge = 1\<rparr>] 0 = Some (Inr 1) \<and>
   count_crossings (1 / 1000000) (Line (Point 1 1) (Vector 0 1)) dome_edges None
     [\<lparr>i_pt = Point 1 1, i_edge = 0\<rparr>] 0 = Some (Inr 0) \<and>
   count_crossings (1 / 1000000) (Line (Point 1 (4/5)) (Vector 0 1)) dome_edges None
     [\<lparr>i_pt = Point (8/5) (4/5), i_edge = 0\<rparr>] 0 = Some (Inr 1)"
proof (intro conjI)
  let ?tol = "1 / 1000000 :: real"
  let ?c = "Segment (Segment_new (Point 1 0) (Point 1 1))"
  let ?d = "\<lparr>e_shape = Curve (Arc dome), e_prev = 1, e_next = 1\<rparr>"
  have s1: "edge_at unit_square_edges (i_edge \<lparr>i_pt = Point 1 (1/2), i_edge = 1\<rparr>) =
      Some (straight 1 0 1 1 0 2)"
    by (simp add: edge_at_def unit_square_edges_def)
  have s2: "e_shape (straight 1 0 1 1 0 2) = Curve ?c" by (simp add: straight_def)
  have s3: "\<not> equalTo ?tol (i_pt \<lparr>i_pt = Point 1 (1/2), i_edge = 1\<rparr>) (curve_start ?c)"
    by (simp add: geom_defs tol_defs)
  have s4: "\<not> equalTo ?tol (i_pt \<lparr>i_pt = Point 1 (1/2), i_edge = 1\<rparr>) (curve_end ?c)"
    by (simp add: geom_defs tol_defs)
  show "count_crossings ?tol (Line (Point (1/2) (1/2)) (Vector 0 1)) unit_square_edges None
     [\<lparr>i_pt = Point 1 (1/2), i_edge = 1\<rparr>] 0 = Some (Inr 1)"
    using interior_crossing_rule [OF s1 s2 s3 s4, of "Line (Point (1/2) (1/2)) (Vector 0 1)" None "[]" 0]
    by simp
  have a1: "edge_at dome_edges (i_edge \<lparr>i_pt = p, i_edge = 0\<rparr>) = Some ?d" for p
    by (simp add: edge_at_def dome_edges_def)
  have a2: "e_shape ?d = Curve (Arc dome)" by simp
  have a3: "\<not> equalTo ?tol (i_pt \<lparr>i_pt = Point 1 1, i_edge = 0\<rparr>) (curve_start (Arc dome))"
    by (simp add: dome_def geom_defs tol_defs)
  have a4: "\<not> equalTo ?tol (i_pt \<lparr>i_pt = Point 1 1, i_edge = 0\<rparr>) (curve_end (Arc dome))"
    by (simp add: dome_def geom_defs tol_defs)
  show "count_crossings ?tol (Line (Point 1 1) (Vector 0 1)) dome_edges None
     [\<lparr>i_pt = Point 1 1, i_edge = 0\<rparr>] 0 = Some (Inr 0)"
    using interior_crossing_rule [OF a1 a2 a3 a4, of "Line (Point 1 1) (Vector 0 1)" None "[]" 0]
    by (simp add: dome_def geom_defs tol_defs)
  have b3: "\<not> equalTo ?tol (i_pt \<lparr>i_pt = Point (8/5) (4/5), i_edge = 0\<rparr>) (curve_start (Arc dome))"
    by (simp add: dome_def geom_defs tol_defs)
  have b4: "\<not> equalTo ?tol (i_pt \<lparr>i_pt = Point (8/5) (4/5), i_edge = 0\<rparr>) (curve_end (Arc dome))"
    by (simp add: dome_def geom_defs tol_defs)
  show "count_crossings ?tol (Line (Point 1 (4/5)) (Vector 0 1)) dome_edges None
     [\<lparr>i_pt = Point (8/5) (4/5), i_edge = 0\<rparr>] 0 = Some (Inr 1)"
    using interior_crossing_rule [OF a1 a2 b3 b4, of "Line (Point 1 (4/5)) (Vector 0 1)" None "[]" 0]
    by (simp add: dome_def geom_defs tol_defs)
qed

end
